theory Spec2Isabelle
  imports Main "HOL-Library.Word"
begin

section \<open>Error values\<close>

text \<open>
  The program (\<^verbatim>\<open>src/main.go\<close>) defines one error type, the struct \<^verbatim>\<open>apiError\<close>, and
  uses three more from \<^verbatim>\<open>github.com/pkg/errors\<close>: \<^verbatim>\<open>*fundamental\<close> (made by
  \<^verbatim>\<open>errors.New\<close>), \<^verbatim>\<open>*withMessage\<close> and \<^verbatim>\<open>*withStack\<close> (made together by
  \<^verbatim>\<open>errors.Wrap\<close>).

  A value of Go's interface type \<^verbatim>\<open>error\<close> is \<^verbatim>\<open>nil\<close> or a value of one of these dynamic
  types: \<open>error\<close> is \<open>error_val option\<close> with \<open>None\<close> for \<^verbatim>\<open>nil\<close>.

  \<^item> \<open>ApiError\<close> is the struct of lines 18-23, a value type: \<^verbatim>\<open>Code int\<close>,
    \<^verbatim>\<open>Message string\<close>, \<^verbatim>\<open>errno uint64\<close> (a 64-bit word, addition wraps) and
    \<^verbatim>\<open>err error\<close>. No arithmetic is done on \<^verbatim>\<open>Code\<close>, so it is an \<open>int\<close>.
  \<^item> The three library types are pointers. The first field of each constructor is the
    address of the object: Go compares pointers by address. The recorded stack traces are
    left out; they are printed only under \<^verbatim>\<open>%+v\<close>.
  \<^item> The library builds a \<^verbatim>\<open>withMessage\<close> or \<^verbatim>\<open>withStack\<close> only around a non-nil error
    (its constructors return \<^verbatim>\<open>nil\<close> for a \<^verbatim>\<open>nil\<close> argument and the struct types are
    unexported), so their wrapped error is an \<open>error_val\<close>.
\<close>

datatype apiError =
  ApiError (Code: int) (Message: string) (errno: "64 word") (err: "error_val option")
and error_val =
    Api apiError
  | Fundamental nat string
  | WithMessage nat error_val string
  | WithStack nat error_val

type_synonym error = "error_val option"

text \<open>
  Go's \<^verbatim>\<open>==\<close>. On structs it compares field by field; on interface values it compares the
  dynamic types and then the values; on pointers it compares addresses.
\<close>

fun apiError_eq :: "apiError \<Rightarrow> apiError \<Rightarrow> bool"
and error_val_eq :: "error_val \<Rightarrow> error_val \<Rightarrow> bool"
and error_eq :: "error \<Rightarrow> error \<Rightarrow> bool" where
  "apiError_eq (ApiError c m n x) (ApiError c' m' n' x') =
     (c = c' \<and> m = m' \<and> n = n' \<and> error_eq x x')"
| "error_val_eq (Api a) (Api b) = apiError_eq a b"
| "error_val_eq (Fundamental p _) (Fundamental q _) = (p = q)"
| "error_val_eq (WithMessage p _ _) (WithMessage q _ _) = (p = q)"
| "error_val_eq (WithStack p _) (WithStack q _) = (p = q)"
| "error_val_eq _ _ = False"
| "error_eq None None = True"
| "error_eq (Some u) (Some v) = error_val_eq u v"
| "error_eq _ _ = False"

section \<open>The state of the process\<close>

text \<open>
  \<open>errNo\<close> is the package variable of line 15. \<open>heap_next\<close> is the next free address for
  the pointer-typed errors the library allocates.
\<close>

record state =
  errNo :: "64 word"
  heap_next :: nat

definition init_state :: state where
  "init_state = \<lparr>errNo = 0, heap_next = 0\<rparr>"

section \<open>Formatting\<close>

text \<open>
  \<^verbatim>\<open>fmt.Sprintf\<close>, for operands that are strings and directives that are a \<^verbatim>\<open>%\<close> followed
  directly by an ASCII verb (no flags, width, precision or argument index; the verbs
  \<^verbatim>\<open>q\<close>, \<^verbatim>\<open>x\<close> and \<^verbatim>\<open>X\<close> are outside this fragment). \<^verbatim>\<open>%s\<close> and \<^verbatim>\<open>%v\<close> print the
  operand, \<^verbatim>\<open>%%\<close> prints a percent sign, another verb prints \<^verbatim>\<open>%!verb(string=operand)\<close>,
  a directive without an operand prints \<^verbatim>\<open>%!verb(MISSING)\<close>, a trailing \<^verbatim>\<open>%\<close> prints
  \<^verbatim>\<open>%!(NOVERB)\<close>, and unused operands are listed in a final \<^verbatim>\<open>%!(EXTRA ...)\<close>.
  \<open>doPrintf\<close> returns the text and the operands not consumed.
\<close>

fun doPrintf :: "string \<Rightarrow> string list \<Rightarrow> string \<times> string list" where
  "doPrintf [] a = ([], a)"
| "doPrintf (c # fs) a =
     (if c \<noteq> CHR ''%'' then apfst ((#) c) (doPrintf fs a)
      else (case fs of
          [] \<Rightarrow> (''%!(NOVERB)'', a)
        | verb # fs' \<Rightarrow>
            if verb = CHR ''%'' then apfst ((#) CHR ''%'') (doPrintf fs' a)
            else (case a of
                [] \<Rightarrow> apfst ((@) (''%!'' @ [verb] @ ''(MISSING)'')) (doPrintf fs' [])
              | x # xs \<Rightarrow>
                  apfst ((@) (if verb = CHR ''s'' \<or> verb = CHR ''v'' then x
                              else ''%!'' @ [verb] @ ''(string='' @ x @ '')''))
                    (doPrintf fs' xs))))"

fun join_extra :: "string list \<Rightarrow> string" where
  "join_extra [] = []"
| "join_extra [x] = ''string='' @ x"
| "join_extra (x # xs) = ''string='' @ x @ '', '' @ join_extra xs"

definition Sprintf :: "string \<Rightarrow> string list \<Rightarrow> string" where
  "Sprintf format a =
     (case doPrintf format a of
        (out, []) \<Rightarrow> out
      | (out, x # xs) \<Rightarrow> out @ ''%!(EXTRA '' @ join_extra (x # xs) @ '')'')"

section \<open>The methods of apiError\<close>

text \<open>
  Lines 25-30, and the \<^verbatim>\<open>Error\<close> methods of the library types. \<^verbatim>\<open>%v\<close> prints an error
  operand through its \<^verbatim>\<open>Error\<close> method, so the operand handed to \<open>Sprintf\<close> is that text.
  \<^verbatim>\<open>fundamental.Error\<close> returns the message, \<^verbatim>\<open>withMessage.Error\<close> returns
  \<^verbatim>\<open>w.msg + ": " + w.cause.Error()\<close>, and \<^verbatim>\<open>withStack\<close> embeds its error and inherits
  its \<^verbatim>\<open>Error\<close>.
\<close>

fun apiError_Error :: "apiError \<Rightarrow> string"
and error_Error :: "error_val \<Rightarrow> string" where
  "apiError_Error (ApiError c m n (Some x)) = Sprintf ''%s: %v'' [m, error_Error x]"
| "apiError_Error (ApiError c m n None) = m"
| "error_Error (Api e) = apiError_Error e"
| "error_Error (Fundamental p msg) = msg"
| "error_Error (WithMessage p cause msg) = msg @ '': '' @ error_Error cause"
| "error_Error (WithStack p inner) = error_Error inner"

text \<open>Lines 32-35. The receiver is a copy; the operands are strings.\<close>

definition F :: "apiError \<Rightarrow> string list \<Rightarrow> apiError" where
  "F e a = ApiError (Code e) (Sprintf (Message e) a) (errno e) (err e)"

text \<open>Lines 37-40. The result has the interface type \<^verbatim>\<open>error\<close>.\<close>

definition Wrap :: "apiError \<Rightarrow> error \<Rightarrow> error" where
  "Wrap e cause = Some (Api (ApiError (Code e) (Message e) (errno e) cause))"

text \<open>Lines 42-44.\<close>

definition Unwrap :: "apiError \<Rightarrow> error" where
  "Unwrap e = err e"

text \<open>
  The \<^verbatim>\<open>Unwrap\<close> method of a dynamic type, \<open>None\<close> when the type has none
  (\<^verbatim>\<open>*fundamental\<close>). \<^verbatim>\<open>withMessage.Unwrap\<close> returns the cause and \<^verbatim>\<open>withStack.Unwrap\<close>
  the embedded error.
\<close>

fun Unwrap_method :: "error_val \<Rightarrow> error option" where
  "Unwrap_method (Api e) = Some (Unwrap e)"
| "Unwrap_method (Fundamental _ _) = None"
| "Unwrap_method (WithMessage _ cause _) = Some (Some cause)"
| "Unwrap_method (WithStack _ inner) = Some (Some inner)"

lemma size_err: "err e = Some u \<Longrightarrow> size u < size e"
  by (cases e) simp

lemma size_option_err: "size_option size (err e) < size e"
  by (cases e) (simp split: option.split)

text \<open>
  \<^verbatim>\<open>errors.Is\<close> of the standard library (which the \<^verbatim>\<open>pkg/errors\<close> function of that name
  calls) and the method of lines 46-53, which calls it back.

  \<^verbatim>\<open>errors.Is\<close> returns \<^verbatim>\<open>err == target\<close> when either is \<^verbatim>\<open>nil\<close>. Otherwise it loops
  (\<open>is_loop\<close>): it returns true when \<^verbatim>\<open>err == target\<close> (every type here is comparable),
  or when \<^verbatim>\<open>err\<close> has an \<^verbatim>\<open>Is\<close> method that returns true on the target (only
  \<^verbatim>\<open>apiError\<close> has one); then it replaces \<^verbatim>\<open>err\<close> by \<^verbatim>\<open>err.Unwrap()\<close> and returns false
  when there is no such method or it returns \<^verbatim>\<open>nil\<close>.

  The method: when the target holds an \<^verbatim>\<open>apiError\<close> the result is the comparison of the
  two \<^verbatim>\<open>errno\<close> fields; otherwise it is \<^verbatim>\<open>errors.Is(e.err, target)\<close>.
\<close>

function (sequential) errors_Is :: "error \<Rightarrow> error \<Rightarrow> bool"
and is_loop :: "error_val \<Rightarrow> error_val \<Rightarrow> bool"
and apiError_Is :: "apiError \<Rightarrow> error \<Rightarrow> bool" where
  "errors_Is None target = error_eq None target"
| "errors_Is (Some e) None = error_eq (Some e) None"
| "errors_Is (Some e) (Some t) = is_loop e t"
| "is_loop (Api e) t =
     (if error_val_eq (Api e) t then True
      else if apiError_Is e (Some t) then True
      else (case err e of None \<Rightarrow> False | Some u \<Rightarrow> is_loop u t))"
| "is_loop (Fundamental p m) t = error_val_eq (Fundamental p m) t"
| "is_loop (WithMessage p cause m) t =
     (if error_val_eq (WithMessage p cause m) t then True else is_loop cause t)"
| "is_loop (WithStack p inner) t =
     (if error_val_eq (WithStack p inner) t then True else is_loop inner t)"
| "apiError_Is e (Some (Api t)) = (errno e = errno t)"
| "apiError_Is e target = errors_Is (err e) target"
  by pat_completeness auto
termination
  by (relation "measure (case_sum (\<lambda>(x, t). 3 * size_option size x + 1)
        (case_sum (\<lambda>(e, t). 3 * size e) (\<lambda>(e, t). 3 * size e + 2)))")
     (auto dest: size_err simp: size_option_err less_Suc_eq_le less_imp_le)

section \<open>The registry\<close>

text \<open>
  Lines 55-63, run by one thread: the struct literal reads \<open>errNo\<close>, then
  \<^verbatim>\<open>atomic.AddUint64\<close> adds one to it, modulo \<open>2 ^ 64\<close>.
\<close>

definition NewError :: "int \<Rightarrow> string \<Rightarrow> state \<Rightarrow> apiError \<times> state" where
  "NewError code message s =
     (let e = ApiError code message (errNo s) None
      in (e, s\<lparr>errNo := errNo s + 1\<rparr>))"

text \<open>A sequence of calls, one after the other; the templates in the order of the calls.\<close>

fun NewError_seq :: "(int \<times> string) list \<Rightarrow> state \<Rightarrow> apiError list \<times> state" where
  "NewError_seq [] s = ([], s)"
| "NewError_seq ((code, message) # cs) s =
     (let (e, s') = NewError code message s;
          (es, s'') = NewError_seq cs s'
      in (e # es, s''))"

text \<open>
  Calls that run concurrently. A call of \<open>NewError\<close> touches the shared variable twice:
  the plain read of \<open>errNo\<close> in the struct literal (line 59), and the atomic addition
  (line 61). Between the two the call holds the struct it has built. A schedule is the
  list of the calls' indices, in the order in which they take their next step.
\<close>

datatype call = Pending int string | Built apiError | Returned apiError

fun step_call :: "call \<Rightarrow> state \<Rightarrow> call \<times> state" where
  "step_call (Pending code message) s = (Built (ApiError code message (errNo s) None), s)"
| "step_call (Built e) s = (Returned e, s\<lparr>errNo := errNo s + 1\<rparr>)"
| "step_call (Returned e) s = (Returned e, s)"

fun run_schedule :: "nat list \<Rightarrow> call list \<times> state \<Rightarrow> call list \<times> state" where
  "run_schedule [] cfg = cfg"
| "run_schedule (i # sched) (calls, s) =
     (if i < length calls
      then (let (c, s') = step_call (calls ! i) s in run_schedule sched (calls[i := c], s'))
      else run_schedule sched (calls, s))"

section \<open>The library's constructors and errors.As\<close>

text \<open>
  \<^verbatim>\<open>errors.New\<close> allocates a \<^verbatim>\<open>fundamental\<close>. \<^verbatim>\<open>errors.Wrap\<close> returns \<^verbatim>\<open>nil\<close> for a
  \<^verbatim>\<open>nil\<close> error and otherwise allocates a \<^verbatim>\<open>withMessage\<close> around the error and a
  \<^verbatim>\<open>withStack\<close> around that.
\<close>

definition errors_New :: "string \<Rightarrow> state \<Rightarrow> error \<times> state" where
  "errors_New message s =
     (Some (Fundamental (heap_next s) message), s\<lparr>heap_next := heap_next s + 1\<rparr>)"

definition errors_Wrap :: "error \<Rightarrow> string \<Rightarrow> state \<Rightarrow> error \<times> state" where
  "errors_Wrap e message s =
     (case e of
        None \<Rightarrow> (None, s)
      | Some x \<Rightarrow>
          (Some (WithStack (heap_next s + 1) (WithMessage (heap_next s) x message)),
           s\<lparr>heap_next := heap_next s + 2\<rparr>))"

text \<open>
  \<^verbatim>\<open>errors.As(err, &apiErr)\<close>: the second argument is the content of the variable the
  pointer refers to, the result is its content afterwards and the boolean. The loop
  stores the first error of the chain whose dynamic type is \<^verbatim>\<open>apiError\<close>; no type here
  has an \<^verbatim>\<open>As\<close> method; the loop ends with false where \<^verbatim>\<open>Unwrap\<close> is missing or returns
  \<^verbatim>\<open>nil\<close>.
\<close>

fun as_loop :: "error_val \<Rightarrow> apiError \<Rightarrow> apiError \<times> bool" where
  "as_loop (Api e) target = (e, True)"
| "as_loop (Fundamental _ _) target = (target, False)"
| "as_loop (WithMessage _ cause _) target = as_loop cause target"
| "as_loop (WithStack _ inner) target = as_loop inner target"

definition errors_As :: "error \<Rightarrow> apiError \<Rightarrow> apiError \<times> bool" where
  "errors_As e target = (case e of None \<Rightarrow> (target, False) | Some x \<Rightarrow> as_loop x target)"

section \<open>Package variables\<close>

text \<open>
  Lines 85-92 and 118, initialised in the order of their declarations.
  \<^verbatim>\<open>http.StatusNotFound\<close> is 404 and \<^verbatim>\<open>http.StatusBadRequest\<close> is 400.
\<close>

record globals =
  ErrNotFound :: apiError
  ErrInvalidId :: apiError
  ErrFromExternalLib :: error
  ErrThingIdTooHigh :: apiError

definition package_init :: "globals \<times> state" where
  "package_init =
     (let (nf, s1) = NewError 404 ''%s not found'' init_state;
          (inv, s2) = NewError 400 ''invalid %s id'' s1;
          (ext, s3) = errors_New ''external lib error'' s2;
          (high, s4) = NewError 400 ''%s id too high'' s3
      in (\<lparr>ErrNotFound = nf, ErrInvalidId = inv, ErrFromExternalLib = ext,
           ErrThingIdTooHigh = high\<rparr>, s4))"

section \<open>Database, service and API\<close>

text \<open>Lines 97-113. The identifier is only compared, so it is an \<open>int\<close>.\<close>

definition externalLibGet :: "globals \<Rightarrow> error" where
  "externalLibGet g = ErrFromExternalLib g"

definition GetThingById :: "globals \<Rightarrow> int \<Rightarrow> error" where
  "GetThingById g id' =
     (if id' < 0 then Some (Api (F (ErrInvalidId g) [''thing'']))
      else (let e = externalLibGet g
            in if e \<noteq> None then Wrap (F (ErrNotFound g) [''thing'']) e
               else None))"

text \<open>Lines 124-142.\<close>

definition DoSomethingWithThing :: "globals \<Rightarrow> int \<Rightarrow> state \<Rightarrow> error \<times> state" where
  "DoSomethingWithThing g id' s =
     (if id' \<ge> 10 then (Some (Api (F (ErrThingIdTooHigh g) [''thing''])), s)
      else (let e = GetThingById g id'
            in if e \<noteq> None
               then (if errors_Is e (Some (Api (ErrInvalidId g)))
                     then errors_Wrap e ''this is a wrapped error'' s
                     else (e, s))
               else (None, s)))"

text \<open>
  \<^verbatim>\<open>json.MarshalIndent\<close> of an \<^verbatim>\<open>apiError\<close>: an object with the exported fields, under the
  names of their tags and in the order of their declaration. The unexported fields
  \<^verbatim>\<open>errno\<close> and \<^verbatim>\<open>err\<close> are skipped by the encoder. The body is kept as a JSON value; its
  text is the encoder's rendering of that value.
\<close>

datatype json = JNumber int | JString string | JObject "(string \<times> json) list"

definition json_MarshalIndent :: "apiError \<Rightarrow> json" where
  "json_MarshalIndent e = JObject [(''code'', JNumber (Code e)), (''message'', JString (Message e))]"

text \<open>
  Lines 150-167. The function prints; the result is what it printed: the debugging line
  and the body sent to the client, or the report of an unknown error (whose text, under
  \<^verbatim>\<open>%+v\<close>, holds stack frames and is left out).
\<close>

datatype response = Response string json | UnknownError

definition zero_apiError :: apiError where
  "zero_apiError = ApiError 0 [] 0 None"

definition respondWithError :: "error \<Rightarrow> response" where
  "respondWithError e =
     (let (apiErr, ok) = errors_As e zero_apiError
      in if ok
         then Response
                (Sprintf ''Internal error: %v\<newline>''
                   [case e of None \<Rightarrow> ''<nil>'' | Some x \<Rightarrow> error_Error x])
                (json_MarshalIndent apiErr)
         else UnknownError)"

text \<open>Lines 170-178: \<open>None\<close> is the answer 200 OK.\<close>

definition DoSomethingWithThingHandler ::
  "globals \<Rightarrow> int \<Rightarrow> state \<Rightarrow> response option \<times> state" where
  "DoSomethingWithThingHandler g id' s =
     (let (e, s') = DoSomethingWithThing g id' s
      in if e \<noteq> None then (Some (respondWithError e), s') else (None, s'))"

text \<open>
  Lines 180-190: the three requests of \<^verbatim>\<open>main\<close>, one after the other, and what each
  printed.
\<close>

definition main :: "globals \<Rightarrow> state \<Rightarrow> response option list \<times> state" where
  "main g s =
     (let (r1, s1) = DoSomethingWithThingHandler g 10 s;
          (r2, s2) = DoSomethingWithThingHandler g 5 s1;
          (r3, s3) = DoSomethingWithThingHandler g (- 1) s2
      in ([r1, r2, r3], s3))"

section \<open>The Unwrap chain\<close>

text \<open>
  The chain of an error: the error itself, then what its \<^verbatim>\<open>Unwrap\<close> method returns, and
  so on, until the method is missing or returns \<^verbatim>\<open>nil\<close>. The chain of \<^verbatim>\<open>nil\<close> is empty.
\<close>

function unwrap_chain :: "error_val \<Rightarrow> error_val list" where
  "unwrap_chain x =
     x # (case Unwrap_method x of Some (Some u) \<Rightarrow> unwrap_chain u | _ \<Rightarrow> [])"
  by pat_completeness auto
termination
proof (relation "measure size")
  show "wf (measure (size :: error_val \<Rightarrow> nat))"
    by simp
next
  fix x :: error_val and o1 u
  assume "Unwrap_method x = Some o1" and "o1 = Some u"
  then show "(u, x) \<in> measure size"
    by (cases x) (auto simp: Unwrap_def dest: size_err)
qed

declare unwrap_chain.simps [simp del]

definition chain_of :: "error \<Rightarrow> error_val list" where
  "chain_of e = (case e of None \<Rightarrow> [] | Some x \<Rightarrow> unwrap_chain x)"

fun is_Api :: "error_val \<Rightarrow> bool" where
  "is_Api (Api _) = True"
| "is_Api _ = False"

section \<open>Facts about the library functions\<close>

lemma Sprintf_colon: "Sprintf ''%s: %v'' [a, b] = a @ '': '' @ b"
  by (simp add: Sprintf_def)

lemma Sprintf_thing:
  "Sprintf ''%s not found'' [''thing''] = ''thing not found''"
  "Sprintf ''invalid %s id'' [''thing''] = ''invalid thing id''"
  "Sprintf ''%s id too high'' [''thing''] = ''thing id too high''"
  by (simp_all add: Sprintf_def)

lemma package_init_eq:
  "package_init =
     (\<lparr>ErrNotFound = ApiError 404 ''%s not found'' 0 None,
       ErrInvalidId = ApiError 400 ''invalid %s id'' 1 None,
       ErrFromExternalLib = Some (Fundamental 0 ''external lib error''),
       ErrThingIdTooHigh = ApiError 400 ''%s id too high'' 2 None\<rparr>,
      \<lparr>errNo = 3, heap_next = 1\<rparr>)"
  by (simp add: package_init_def NewError_def errors_New_def init_state_def)

lemma unwrap_chain_simps:
  "unwrap_chain (Api e) = Api e # (case err e of None \<Rightarrow> [] | Some u \<Rightarrow> unwrap_chain u)"
  "unwrap_chain (Fundamental p m) = [Fundamental p m]"
  "unwrap_chain (WithMessage p c m) = WithMessage p c m # unwrap_chain c"
  "unwrap_chain (WithStack p i) = WithStack p i # unwrap_chain i"
  by (subst unwrap_chain.simps, simp add: Unwrap_def split: option.split)+

lemma apiError_eq_errno: "apiError_eq a b \<Longrightarrow> errno a = errno b"
  by (cases a; cases b) simp

lemma errors_Is_err:
  "errors_Is x (Some t) = (case x of None \<Rightarrow> False | Some u \<Rightarrow> is_loop u t)"
  by (cases x) simp_all

lemma errors_Is_Api_step:
  "errors_Is (Some (Api e)) (Some t) =
     ((case t of Api a \<Rightarrow> errno e = errno a | _ \<Rightarrow> False) \<or> errors_Is (err e) (Some t))"
  by (cases t) (auto simp: errors_Is_err dest: apiError_eq_errno split: option.splits)

lemma as_loop_find:
  "as_loop x z =
     (case find is_Api (unwrap_chain x) of Some (Api a) \<Rightarrow> (a, True) | _ \<Rightarrow> (z, False))"
  by (induction x z rule: as_loop.induct) (simp_all add: unwrap_chain_simps)

lemma snd_as_loop: "snd (as_loop x z) = (\<exists>a. Api a \<in> set (unwrap_chain x))"
  by (induction x z rule: as_loop.induct) (auto simp: unwrap_chain_simps)

lemma NewError_errNo: "errNo (snd (NewError code message s)) = errNo s + 1"
  by (simp add: NewError_def)

lemma NewError_errno: "errno (fst (NewError code message s)) = errNo s"
  by (simp add: NewError_def)

lemma NewError_seq_Cons:
  "NewError_seq (c # cs) s =
     (fst (NewError (fst c) (snd c) s) # fst (NewError_seq cs (snd (NewError (fst c) (snd c) s))),
      snd (NewError_seq cs (snd (NewError (fst c) (snd c) s))))"
  by (cases c) (simp add: split_beta)

lemma NewError_seq_length: "length (fst (NewError_seq cs s)) = length cs"
  by (induction cs arbitrary: s) (simp_all add: NewError_seq_Cons)

lemma NewError_seq_errNo:
  "errNo (snd (NewError_seq cs s)) = errNo s + of_nat (length cs)"
  by (induction cs arbitrary: s) (simp_all add: NewError_seq_Cons NewError_errNo)

lemma NewError_seq_errno:
  "k < length cs \<Longrightarrow> errno (fst (NewError_seq cs s) ! k) = errNo s + of_nat k"
proof (induction cs arbitrary: s k)
  case Nil
  then show ?case by simp
next
  case (Cons c cs)
  show ?case
  proof (cases k)
    case 0
    then show ?thesis by (simp add: NewError_seq_Cons NewError_errno)
  next
    case (Suc k')
    with Cons.prems have "k' < length cs" by simp
    then show ?thesis using Suc
      by (simp add: NewError_seq_Cons Cons.IH NewError_errNo)
  qed
qed

lemma unat_add_of_nat:
  fixes a :: "64 word"
  assumes "unat a + k < 2 ^ 64"
  shows "unat (a + of_nat k) = unat a + k"
proof -
  have "k < 2 ^ 64" using assms by simp
  then have "unat (of_nat k :: 64 word) = k"
    by (simp add: unat_of_nat)
  then show ?thesis using assms
    by (simp add: unat_add_lem [THEN iffD1])
qed

lemma word64_wrap: "(of_nat (2 ^ 64) :: 64 word) = 0"
  by simp

lemma step_call_twice:
  "(let (c1, s1) = step_call (Pending code message) s; (c2, s2) = step_call c1 s1 in (c2, s2))
     = (Returned (fst (NewError code message s)), snd (NewError code message s))"
  by (simp add: NewError_def)

lemma GetThingById_negative:
  "id' < 0 \<Longrightarrow> GetThingById (fst package_init) id'
     = Some (Api (ApiError 400 ''invalid thing id'' 1 None))"
  by (simp add: GetThingById_def package_init_eq F_def Sprintf_thing)

lemma DoSomethingWithThing_negative:
  "id' < 0 \<Longrightarrow> DoSomethingWithThing (fst package_init) id' s
     = (Some (WithStack (heap_next s + 1)
          (WithMessage (heap_next s) (Api (ApiError 400 ''invalid thing id'' 1 None))
             ''this is a wrapped error'')),
        s\<lparr>heap_next := heap_next s + 2\<rparr>)"
  by (simp add: DoSomethingWithThing_def GetThingById_negative errors_Wrap_def)
     (simp add: package_init_eq)

lemma Sprintf_internal:
  "Sprintf ''Internal error: %v\<newline>'' [m] = ''Internal error: '' @ m @ ''\<newline>''"
  by (simp add: Sprintf_def)

text \<open>The program prints what the comment at the end of \<^verbatim>\<open>main\<close> (lines 192-211) says.\<close>

lemma main_output:
  "fst (main (fst package_init) (snd package_init)) =
     [Some (Response ''Internal error: thing id too high\<newline>''
        (JObject [(''code'', JNumber 400), (''message'', JString ''thing id too high'')])),
      Some (Response ''Internal error: thing not found: external lib error\<newline>''
        (JObject [(''code'', JNumber 404), (''message'', JString ''thing not found'')])),
      Some (Response ''Internal error: this is a wrapped error: invalid thing id\<newline>''
        (JObject [(''code'', JNumber 400), (''message'', JString ''invalid thing id'')]))]"
proof -
  have r1: "DoSomethingWithThingHandler (fst package_init) 10 s =
      (Some (Response ''Internal error: thing id too high\<newline>''
        (JObject [(''code'', JNumber 400), (''message'', JString ''thing id too high'')])), s)"
    for s
    by (simp add: DoSomethingWithThingHandler_def DoSomethingWithThing_def package_init_eq
        F_def Sprintf_thing respondWithError_def errors_As_def json_MarshalIndent_def
        Sprintf_internal)
  have g5: "GetThingById (fst package_init) 5 =
      Some (Api (ApiError 404 ''thing not found'' 0
        (Some (Fundamental 0 ''external lib error''))))"
    by (simp add: GetThingById_def externalLibGet_def package_init_eq F_def Wrap_def
        Sprintf_thing)
  have r2: "DoSomethingWithThingHandler (fst package_init) 5 s =
      (Some (Response ''Internal error: thing not found: external lib error\<newline>''
        (JObject [(''code'', JNumber 404), (''message'', JString ''thing not found'')])), s)"
    for s
    by (simp add: DoSomethingWithThingHandler_def DoSomethingWithThing_def g5
        respondWithError_def errors_As_def json_MarshalIndent_def Sprintf_internal
        Sprintf_colon)
       (simp add: package_init_eq)
  have r3: "DoSomethingWithThingHandler (fst package_init) (- 1) s =
      (Some (Response ''Internal error: this is a wrapped error: invalid thing id\<newline>''
        (JObject [(''code'', JNumber 400), (''message'', JString ''invalid thing id'')])),
       s\<lparr>heap_next := heap_next s + 2\<rparr>)"
    for s
    by (simp add: DoSomethingWithThingHandler_def DoSomethingWithThing_negative
        respondWithError_def errors_As_def json_MarshalIndent_def Sprintf_internal)
  show ?thesis
    by (simp add: main_def r1 r2 r3)
qed

section \<open>Identity matching\<close>

text \<open>
  C1, as the code has it. The method \<open>apiError_Is\<close> compares the two identities when the
  target holds an \<open>apiError\<close>, and that comparison is its whole answer: the cause is not
  looked at. For any other target (\<^verbatim>\<open>nil\<close> included) the answer is
  \<open>errors_Is\<close> of the cause and the target. The cause chain is consulted by
  \<open>errors_Is\<close>: on an \<open>apiError\<close> and a non-nil target it is true exactly when the
  target is an \<open>apiError\<close> of the same identity or \<open>errors_Is\<close> holds of the cause and the
  target.
\<close>

theorem apiError_Is_shallow:
  "apiError_Is e target =
     (case target of Some (Api t) \<Rightarrow> errno e = errno t | _ \<Rightarrow> errors_Is (err e) target)
   \<and> errors_Is (Some (Api e)) (Some t) =
     ((case t of Api a \<Rightarrow> errno e = errno a | _ \<Rightarrow> False) \<or> errors_Is (err e) (Some t))"
proof
  show "apiError_Is e target =
     (case target of Some (Api t) \<Rightarrow> errno e = errno t | _ \<Rightarrow> errors_Is (err e) target)"
  proof (cases target)
    case None
    then show ?thesis by simp
  next
    case (Some t)
    then show ?thesis by (cases t) simp_all
  qed
next
  show "errors_Is (Some (Api e)) (Some t) =
     ((case t of Api a \<Rightarrow> errno e = errno a | _ \<Rightarrow> False) \<or> errors_Is (err e) (Some t))"
    by (rule errors_Is_Api_step)
qed

text \<open>
  At a not-found error around the library's error, matched against that error by the
  method; and at a not-found error around an invalid-id error, matched against the
  invalid-id template by \<open>errors_Is\<close>.
\<close>

theorem apiError_Is_shallow_witness:
  "apiError_Is (ApiError 404 ''thing not found'' 0 (Some (Fundamental 0 ''external lib error'')))
     (Some (Fundamental 0 ''external lib error''))
   \<and> errors_Is
     (Some (Api (ApiError 404 ''thing not found'' 0
        (Some (Api (ApiError 400 ''invalid thing id'' 1 None))))))
     (Some (Api (ApiError 400 ''invalid %s id'' 1 None)))"
  using apiError_Is_shallow
    [of "ApiError 404 ''thing not found'' 0 (Some (Fundamental 0 ''external lib error''))"
        "Some (Fundamental 0 ''external lib error'')"]
    apiError_Is_shallow
    [of "ApiError 404 ''thing not found'' 0
          (Some (Api (ApiError 400 ''invalid thing id'' 1 None)))" _
        "Api (ApiError 400 ''invalid %s id'' 1 None)"]
  by simp

text \<open>
  C1 as the specification states it fails. Take a not-found error (identity 0) whose cause
  is an invalid-id error (identity 1), and the invalid-id template as the target. The
  target is an \<open>apiError\<close> of another identity than the error's, and the method holds of the
  cause and the target; by the claim the method would hold of the error and the target.
  It does not.
\<close>

theorem apiError_Is_cause_counterexample:
  "\<not> (apiError_Is
         (ApiError 404 ''thing not found'' 0
            (Some (Api (ApiError 400 ''invalid thing id'' 1 None))))
         (Some (Api (ApiError 400 ''invalid %s id'' 1 None)))
       = (errno (ApiError 400 ''invalid %s id'' 1 None)
            = errno (ApiError 404 ''thing not found'' 0
                (Some (Api (ApiError 400 ''invalid thing id'' 1 None))))
          \<or> apiError_Is (ApiError 400 ''invalid thing id'' 1 None)
               (Some (Api (ApiError 400 ''invalid %s id'' 1 None)))))"
  by simp

text \<open>
  C10: an \<open>apiError\<close> without a cause matches the \<^verbatim>\<open>nil\<close> target: \<^verbatim>\<open>nil\<close> is no
  \<open>apiError\<close>, and \<open>errors_Is\<close> of two \<^verbatim>\<open>nil\<close>s is true.
\<close>

theorem Is_nil_without_cause: "err e = None \<Longrightarrow> apiError_Is e None"
  by simp

theorem Is_nil_without_cause_witness:
  "err (ApiError 404 ''%s not found'' 0 None) = None
   \<and> apiError_Is (ApiError 404 ''%s not found'' 0 None) None"
  using Is_nil_without_cause [of "ApiError 404 ''%s not found'' 0 None"] by simp

section \<open>Wrapping and formatting keep the identity\<close>

text \<open>
  C4: \<open>Wrap e c\<close> is an \<open>apiError\<close> with the identity, the code and the message of \<open>e\<close>,
  and its \<open>Unwrap\<close> is \<open>c\<close>. The struct has no other field, so only the cause differs.
\<close>

theorem Wrap_frame:
  "\<exists>e'. Wrap e c = Some (Api e') \<and> errno e' = errno e \<and> Code e' = Code e
        \<and> Message e' = Message e \<and> Unwrap e' = c"
  by (simp add: Wrap_def Unwrap_def)

text \<open>
  C6: formatting a template with two operand lists gives errors of equal identity and
  equal code, those of the template. The proof does not look into \<open>Sprintf\<close>.
\<close>

theorem F_identity_invariant:
  "errno (F T A1) = errno (F T A2) \<and> Code (F T A1) = Code (F T A2)
   \<and> errno (F T A1) = errno T \<and> Code (F T A1) = Code T"
  by (simp add: F_def)

section \<open>Classification\<close>

text \<open>
  C3: \<open>errors_As\<close> answers true exactly when the chain of the error holds an \<open>apiError\<close>,
  and then stores the first one of the chain, from the top; otherwise it leaves the
  variable alone and answers false, and \<open>respondWithError\<close> reports an unknown error.
\<close>

theorem classify_first_apiError:
  "errors_As e z =
     (case find is_Api (chain_of e) of Some (Api a) \<Rightarrow> (a, True) | _ \<Rightarrow> (z, False))
   \<and> (snd (errors_As e z) = (\<exists>a. Api a \<in> set (chain_of e)))
   \<and> ((respondWithError e = UnknownError) = (\<not> (\<exists>a. Api a \<in> set (chain_of e))))"
proof (cases e)
  case None
  then show ?thesis
    by (simp add: errors_As_def chain_of_def respondWithError_def)
next
  case (Some x)
  have 1: "errors_As e z =
     (case find is_Api (chain_of e) of Some (Api a) \<Rightarrow> (a, True) | _ \<Rightarrow> (z, False))"
    using Some by (simp add: errors_As_def chain_of_def as_loop_find)
  have 2: "snd (errors_As e z) = (\<exists>a. Api a \<in> set (chain_of e))"
    using Some by (simp add: errors_As_def chain_of_def snd_as_loop)
  have "(respondWithError e = UnknownError) = (\<not> snd (errors_As e zero_apiError))"
    by (simp add: respondWithError_def split: prod.split)
  also have "\<dots> = (\<not> (\<exists>a. Api a \<in> set (chain_of e)))"
    using Some by (simp add: errors_As_def chain_of_def snd_as_loop)
  finally show ?thesis using 1 2 by simp
qed

text \<open>
  At the error the service returns for a negative identifier, built around an invalid-id
  error that itself has a cause: the first \<open>apiError\<close> from the top is stored. And at
  the library's error alone, which is reported as unknown.
\<close>

theorem classify_first_apiError_witness:
  "errors_As
     (Some (WithStack 2 (WithMessage 1
        (Api (ApiError 400 ''invalid thing id'' 1
           (Some (Api (ApiError 404 ''thing not found'' 0 None)))))
        ''this is a wrapped error'')))
     zero_apiError
   = (ApiError 400 ''invalid thing id'' 1 (Some (Api (ApiError 404 ''thing not found'' 0 None))),
      True)
   \<and> respondWithError (Some (Fundamental 0 ''external lib error'')) = UnknownError"
  using classify_first_apiError
    [of "Some (WithStack 2 (WithMessage 1
        (Api (ApiError 400 ''invalid thing id'' 1
           (Some (Api (ApiError 404 ''thing not found'' 0 None)))))
        ''this is a wrapped error''))" zero_apiError]
    classify_first_apiError [of "Some (Fundamental 0 ''external lib error'')" zero_apiError]
  by (simp add: chain_of_def unwrap_chain_simps)

section \<open>Identities of the registry\<close>

text \<open>
  C5, as the code has it. \<open>errNo\<close> is a 64-bit counter. As long as the calls made one
  after the other do not carry it past \<open>2 ^ 64\<close>, a template made later has a strictly
  greater identity than every template made earlier, and no two templates share one.
\<close>

theorem NewError_seq_increasing:
  assumes "unat (errNo s) + length cs \<le> 2 ^ 64"
  shows "(\<forall>i j. i < j \<and> j < length cs \<longrightarrow>
            errno (fst (NewError_seq cs s) ! i) < errno (fst (NewError_seq cs s) ! j))
         \<and> distinct (map errno (fst (NewError_seq cs s)))"
proof -
  let ?es = "fst (NewError_seq cs s)"
  have incr: "errno (?es ! i) < errno (?es ! j)" if "i < j" "j < length cs" for i j
  proof -
    have "unat (errNo s + of_nat i) = unat (errNo s) + i"
      and "unat (errNo s + of_nat j) = unat (errNo s) + j"
      using that assms by (simp_all add: unat_add_of_nat)
    then have "errNo s + of_nat i < errNo s + of_nat j"
      using that by (simp add: word_less_nat_alt)
    then show ?thesis using that by (simp add: NewError_seq_errno)
  qed
  have "distinct (map errno ?es)"
  proof (rule ccontr)
    assume "\<not> distinct (map errno ?es)"
    then obtain i j where ij: "i < j" "j < length (map errno ?es)"
        "map errno ?es ! i = map errno ?es ! j"
      by (metis distinct_conv_nth linorder_neqE_nat length_map)
    then have "j < length cs" by (simp add: NewError_seq_length)
    with ij incr [of i j] show False
      by (simp add: NewError_seq_length)
  qed
  with incr show ?thesis by blast
qed

text \<open>At the three templates of the program, made from the initial state.\<close>

theorem NewError_seq_increasing_witness:
  "unat (errNo init_state)
     + length [(404::int, ''%s not found''), (400, ''invalid %s id''), (400, ''%s id too high'')]
     \<le> 2 ^ 64
   \<and> distinct (map errno (fst (NewError_seq
         [(404, ''%s not found''), (400, ''invalid %s id''), (400, ''%s id too high'')]
         init_state)))
   \<and> map errno (fst (NewError_seq
         [(404, ''%s not found''), (400, ''invalid %s id''), (400, ''%s id too high'')]
         init_state)) = [0, 1, 2]"
proof -
  have h: "unat (errNo init_state)
     + length [(404::int, ''%s not found''), (400, ''invalid %s id''), (400, ''%s id too high'')]
     \<le> 2 ^ 64"
    by (simp add: init_state_def)
  have m: "map errno (fst (NewError_seq
         [(404, ''%s not found''), (400, ''invalid %s id''), (400, ''%s id too high'')]
         init_state)) = [0, 1, 2]"
    by (simp add: NewError_def init_state_def)
  have d: "distinct (map errno (fst (NewError_seq
         [(404, ''%s not found''), (400, ''invalid %s id''), (400, ''%s id too high'')]
         init_state)))"
    using NewError_seq_increasing [OF h] by (rule conjunct2)
  from h d m show ?thesis
    by (intro conjI)
qed

text \<open>
  C5 as the specification states it, for any sequence of calls, fails: the addition wraps.
  Of \<open>2 ^ 64 + 1\<close> calls made from the initial state, the first and the last return the
  same identity.
\<close>

theorem NewError_seq_wrap_counterexample:
  "errno (fst (NewError_seq (replicate (2 ^ 64 + 1) (500, ''e'')) init_state) ! 0)
     = errno (fst (NewError_seq (replicate (2 ^ 64 + 1) (500, ''e'')) init_state) ! (2 ^ 64))
   \<and> \<not> distinct (map errno (fst (NewError_seq (replicate (2 ^ 64 + 1) (500, ''e'')) init_state)))"
proof -
  define cs :: "(int \<times> string) list" where "cs = replicate (2 ^ 64 + 1) (500, ''e'')"
  define es where "es = fst (NewError_seq cs init_state)"
  have len: "length cs = 2 ^ 64 + 1"
    unfolding cs_def by (rule length_replicate)
  have l0: "(0::nat) < length cs" and l1: "(2 ^ 64 :: nat) < length cs"
    unfolding len by simp_all
  have "errno (es ! 0) = errNo init_state + of_nat 0"
    unfolding es_def by (rule NewError_seq_errno [OF l0])
  moreover have "errno (es ! (2 ^ 64)) = errNo init_state + of_nat (2 ^ 64)"
    unfolding es_def by (rule NewError_seq_errno [OF l1])
  ultimately have eq: "errno (es ! 0) = errno (es ! (2 ^ 64))"
    by (simp only: word64_wrap semiring_1_class.of_nat_0)
  have les: "length (map errno es) = length cs"
    unfolding es_def by (simp only: length_map NewError_seq_length)
  have nd: "\<not> distinct (map errno es)"
  proof
    assume d: "distinct (map errno es)"
    have a: "(map errno es ! 0 = map errno es ! (2 ^ 64)) = ((0::nat) = 2 ^ 64)"
      by (rule nth_eq_iff_index_eq [OF d]) (simp_all only: les l0 l1)
    have b: "map errno es ! 0 = map errno es ! (2 ^ 64)"
      using eq l0 l1 les by (simp only: nth_map length_map)
    from a b have "(0::nat) = 2 ^ 64"
      by (rule iffD1)
    then show False by simp
  qed
  from eq nd show ?thesis
    unfolding es_def cs_def by (rule conjI)
qed

text \<open>
  C2: two concurrent calls, started in the initial state. When both read \<open>errNo\<close> before
  either adds to it (the schedule \<open>[0, 1, 0, 1]\<close>), both templates get the identity 0,
  while the counter ends at 2: no addition is lost, but the identity is shared. When the
  first call returns before the second starts (\<open>[0, 0, 1, 1]\<close>) the identities are 0 and 1.
\<close>

theorem concurrent_NewError_duplicate:
  "run_schedule [0, 1, 0, 1]
       ([Pending 404 ''%s not found'', Pending 400 ''invalid %s id''], init_state)
     = ([Returned (ApiError 404 ''%s not found'' 0 None),
         Returned (ApiError 400 ''invalid %s id'' 0 None)],
        \<lparr>errNo = 2, heap_next = 0\<rparr>)
   \<and> run_schedule [0, 0, 1, 1]
       ([Pending 404 ''%s not found'', Pending 400 ''invalid %s id''], init_state)
     = ([Returned (ApiError 404 ''%s not found'' 0 None),
         Returned (ApiError 400 ''invalid %s id'' 1 None)],
        \<lparr>errNo = 2, heap_next = 0\<rparr>)"
  by (simp add: init_state_def)

section \<open>Messages and the client's body\<close>

text \<open>
  C7: the \<open>Error\<close> method returns the message when there is no cause, and otherwise the
  message, a colon and a space, and the text of the cause, which for a cause that is an
  \<open>apiError\<close> is again its \<open>Error\<close>. For the identifier 5 the database returns the
  formatted not-found error around the library's error, and its text is
  \<^verbatim>\<open>thing not found: external lib error\<close>.
\<close>

theorem Error_message:
  "apiError_Error e =
     (case err e of None \<Rightarrow> Message e | Some c \<Rightarrow> Message e @ '': '' @ error_Error c)
   \<and> error_Error (Api e) = apiError_Error e
   \<and> (case GetThingById (fst package_init) 5 of
        Some x \<Rightarrow> error_Error x = ''thing not found: external lib error''
      | None \<Rightarrow> False)"
proof (intro conjI)
  show "apiError_Error e =
     (case err e of None \<Rightarrow> Message e | Some c \<Rightarrow> Message e @ '': '' @ error_Error c)"
    by (cases e) (simp add: Sprintf_colon split: option.split)
  show "error_Error (Api e) = apiError_Error e"
    by simp
  show "case GetThingById (fst package_init) 5 of
        Some x \<Rightarrow> error_Error x = ''thing not found: external lib error''
      | None \<Rightarrow> False"
    by (simp add: package_init_eq GetThingById_def externalLibGet_def Wrap_def F_def
        Sprintf_thing Sprintf_colon)
qed

text \<open>
  C8: for a negative identifier the handler answers with the code 400 and the message
  \<^verbatim>\<open>invalid thing id\<close>, whatever the state of the heap. The body is the one that the
  database's error would give without the wrapping of the service; only the debugging line
  shows the wrapping.
\<close>

theorem invalid_id_response:
  assumes "id' < 0"
  shows "fst (DoSomethingWithThingHandler (fst package_init) id' s)
     = Some (Response
         ''Internal error: this is a wrapped error: invalid thing id\<newline>''
         (JObject [(''code'', JNumber 400), (''message'', JString ''invalid thing id'')]))
   \<and> respondWithError (GetThingById (fst package_init) id')
     = Response ''Internal error: invalid thing id\<newline>''
         (JObject [(''code'', JNumber 400), (''message'', JString ''invalid thing id'')])"
proof
  show "fst (DoSomethingWithThingHandler (fst package_init) id' s)
     = Some (Response
         ''Internal error: this is a wrapped error: invalid thing id\<newline>''
         (JObject [(''code'', JNumber 400), (''message'', JString ''invalid thing id'')]))"
    using assms
    by (simp add: DoSomethingWithThingHandler_def DoSomethingWithThing_negative
        respondWithError_def errors_As_def json_MarshalIndent_def Sprintf_internal)
  show "respondWithError (GetThingById (fst package_init) id')
     = Response ''Internal error: invalid thing id\<newline>''
         (JObject [(''code'', JNumber 400), (''message'', JString ''invalid thing id'')])"
    using assms
    by (simp add: GetThingById_negative respondWithError_def errors_As_def json_MarshalIndent_def
        Sprintf_internal)
qed

text \<open>At the identifier -1, the request of the program's \<^verbatim>\<open>main\<close>.\<close>

theorem invalid_id_response_witness:
  "(-1::int) < 0
   \<and> fst (DoSomethingWithThingHandler (fst package_init) (-1) (snd package_init))
     = Some (Response
         ''Internal error: this is a wrapped error: invalid thing id\<newline>''
         (JObject [(''code'', JNumber 400), (''message'', JString ''invalid thing id'')]))"
proof -
  have h: "(-1::int) < 0" by simp
  from h invalid_id_response [OF h, of "snd package_init"] show ?thesis
    by (intro conjI) (simp_all only: simp_thms)
qed

text \<open>
  C9: two \<open>apiError\<close>s of equal code and message have the same body, whatever their
  identities and causes; the body holds the code and the message and nothing else.
\<close>

theorem body_independent_of_internals:
  assumes "Code a1 = Code a2" and "Message a1 = Message a2"
  shows "json_MarshalIndent a1 = json_MarshalIndent a2
    \<and> (\<exists>l1 l2 b. respondWithError (Some (Api a1)) = Response l1 b
          \<and> respondWithError (Some (Api a2)) = Response l2 b
          \<and> b = JObject [(''code'', JNumber (Code a1)), (''message'', JString (Message a1))])"
  using assms
  by (simp add: json_MarshalIndent_def respondWithError_def errors_As_def)

text \<open>At a template-made error and one of another identity that has a cause.\<close>

theorem body_independent_of_internals_witness:
  "Code (ApiError 404 ''thing not found'' 0 None)
     = Code (ApiError 404 ''thing not found'' 7 (Some (Fundamental 0 ''external lib error'')))
   \<and> Message (ApiError 404 ''thing not found'' 0 None)
     = Message (ApiError 404 ''thing not found'' 7 (Some (Fundamental 0 ''external lib error'')))
   \<and> json_MarshalIndent (ApiError 404 ''thing not found'' 0 None)
     = json_MarshalIndent (ApiError 404 ''thing not found'' 7
         (Some (Fundamental 0 ''external lib error'')))"
proof -
  have c: "Code (ApiError 404 ''thing not found'' 0 None)
     = Code (ApiError 404 ''thing not found'' 7 (Some (Fundamental 0 ''external lib error'')))"
    and m: "Message (ApiError 404 ''thing not found'' 0 None)
     = Message (ApiError 404 ''thing not found'' 7 (Some (Fundamental 0 ''external lib error'')))"
    by simp_all
  from body_independent_of_internals [OF c m]
  have "json_MarshalIndent (ApiError 404 ''thing not found'' 0 None)
     = json_MarshalIndent (ApiError 404 ''thing not found'' 7
         (Some (Fundamental 0 ''external lib error'')))"
    by (rule conjunct1)
  with c m show ?thesis by (intro conjI)
qed

end
